theory Spec2Isabelle
  imports
    Complex_Main
    "HOL-Library.AList"
    "HOL-Library.Multiset"
    "HOL-Library.Sublist"
    "HOL-Library.List_Lexorder"
    "HOL-Library.Word"
begin

section \<open>Data model of \<^verbatim>\<open>src/App.tsx\<close>\<close>

text \<open>
  The attendance tracker keeps two pieces of state: the roster \<^verbatim>\<open>kids\<close> (an array of
  \<^verbatim>\<open>Child\<close>) and \<^verbatim>\<open>attendance\<close>, an object from day key to an object from child id to
  \<^verbatim>\<open>Attendance\<close>.

  Numbers are modelled as \<open>int\<close>: every number the code handles is an epoch-millisecond
  timestamp (\<^verbatim>\<open>Date.now()\<close>), a whole number of minutes or a counter. An optional field
  (\<^verbatim>\<open>checkInMs?: number\<close>) is an \<open>option\<close>; \<open>None\<close> is JavaScript's \<^verbatim>\<open>undefined\<close>.
  A JavaScript string is the list of its UTF-16 code units (\<open>jsstring\<close>); \<open>js\<close>
  writes a string of ASCII characters as such a list.

  A JavaScript object that is enumerated with \<^verbatim>\<open>Object.keys\<close> is an association list in
  insertion order: \<open>map_of\<close> reads a property, \<open>AList.update\<close> assigns one (an existing
  key keeps its place, a new key goes to the end) and \<open>map fst\<close> lists the keys. The keys of
  an object are pairwise different, which is the predicate \<open>wf_attendance\<close> below.
\<close>

type_synonym jsstring = "16 word list"

definition js :: "string \<Rightarrow> jsstring" where
  "js s = map of_char s"

datatype Status = PRESENT | ABSENT

record Child =
  id' :: jsstring
  firstName :: jsstring
  lastName :: jsstring
  isActive :: bool
  guardian :: jsstring
  allergies :: "jsstring option"

record Attendance =
  status :: Status
  checkInMs :: "int option"
  checkOutMs :: "int option"
  totalMinutes :: "int option"
  checkInNote :: "jsstring option"
  checkOutNote :: "jsstring option"

type_synonym DayMap = "(jsstring \<times> Attendance) list"
type_synonym AttendanceHistory = "(jsstring \<times> DayMap) list"

record Snapshot =
  kids :: "Child list"
  attendance :: AttendanceHistory

definition wf_attendance :: "AttendanceHistory \<Rightarrow> bool" where
  "wf_attendance att \<longleftrightarrow>
     distinct (map fst att) \<and> list_all (\<lambda>p. distinct (map fst (snd p))) att"

text \<open>\<^verbatim>\<open>attendance[dKey] ?? {}\<close>: the day's object, the empty object when the day is missing.\<close>

definition dayMapOf :: "AttendanceHistory \<Rightarrow> jsstring \<Rightarrow> DayMap" where
  "dayMapOf att dKey = (case map_of att dKey of None \<Rightarrow> [] | Some dm \<Rightarrow> dm)"

text \<open>The record stored for a (day, child) pair, if any.\<close>

definition entry :: "AttendanceHistory \<Rightarrow> jsstring \<Rightarrow> jsstring \<Rightarrow> Attendance option" where
  "entry att dKey childId = map_of (dayMapOf att dKey) childId"

subsection \<open>JavaScript truthiness\<close>

text \<open>
  \<^verbatim>\<open>!x\<close> on an optional number is true for \<^verbatim>\<open>undefined\<close> and for \<^verbatim>\<open>0\<close>;
  \<^verbatim>\<open>s || ""\<close> on an optional string is the string itself when it is present and non-empty,
  and \<^verbatim>\<open>""\<close> otherwise.
\<close>

definition truthy :: "int option \<Rightarrow> bool" where
  "truthy x = (case x of None \<Rightarrow> False | Some n \<Rightarrow> n \<noteq> 0)"

definition orEmpty :: "jsstring option \<Rightarrow> jsstring" where
  "orEmpty s = (case s of None \<Rightarrow> [] | Some t \<Rightarrow> (if t = [] then [] else t))"

section \<open>Time utilities\<close>

text \<open>
  \<^verbatim>\<open>
  function minutesBetween(startMs?: number, endMs?: number) {
    if (!startMs || !endMs) return undefined;
    const diff = endMs - startMs;
    if (diff < 0) return undefined;
    return Math.round(diff / 60000);
  }
  \<close>
  \<^verbatim>\<open>Math.round\<close> rounds to the nearest integer, a tie going up: it is \<open>round\<close> of HOL,
  \<open>round x = \<lfloor>x + 1/2\<rfloor>\<close>.
\<close>

definition minutesBetween :: "int option \<Rightarrow> int option \<Rightarrow> int option" where
  "minutesBetween startMs endMs =
     (if \<not> truthy startMs \<or> \<not> truthy endMs then None
      else case (startMs, endMs) of
        (Some s, Some e) \<Rightarrow>
          (let diff = e - s in
           if diff < 0 then None
           else Some (round (real_of_int diff / 60000)))
      | _ \<Rightarrow> None)"

section \<open>Attendance transitions\<close>

text \<open>
  \<^verbatim>\<open>doCheckIn\<close> and \<^verbatim>\<open>doCheckOut\<close> read the component's \<^verbatim>\<open>dateKey\<close> (computed once, when
  the component mounts), the clock (\<^verbatim>\<open>Date.now()\<close>) and the current state, and commit a new
  state. Here the day key and the clock reading are arguments and the state is a
  \<open>Snapshot\<close> that is passed in and returned.
  \<^verbatim>\<open>
  function doCheckIn(childId: string, note: string) {
    const now = Date.now();
    const next = { ...attendance };
    const d = { ...(next[dateKey] ?? {}) };
    d[childId] = { status: "PRESENT", checkInMs: now, checkOutMs: undefined,
                   totalMinutes: undefined, checkInNote: note || "", checkOutNote: "" };
    next[dateKey] = d;
    commit(kids, next);
  }
  \<close>
\<close>

definition doCheckIn :: "jsstring \<Rightarrow> int \<Rightarrow> Snapshot \<Rightarrow> jsstring \<Rightarrow> jsstring \<Rightarrow> Snapshot" where
  "doCheckIn dateKey now snap childId note =
     (let next = attendance snap;
          d = dayMapOf next dateKey;
          d = AList.update childId
                \<lparr>status = PRESENT,
                 checkInMs = Some now,
                 checkOutMs = None,
                 totalMinutes = None,
                 checkInNote = Some (orEmpty (Some note)),
                 checkOutNote = Some []\<rparr> d;
          next = AList.update dateKey d next
      in \<lparr>kids = kids snap, attendance = next\<rparr>)"

text \<open>
  \<^verbatim>\<open>
  function doCheckOut(childId: string, note: string) {
    const now = Date.now();
    const existing = dayMap[childId];          // dayMap = attendance[dateKey] ?? {}
    const totalMinutes = minutesBetween(existing?.checkInMs, now);
    const next = { ...attendance };
    const d = { ...(next[dateKey] ?? {}) };
    d[childId] = { status: "ABSENT", checkInMs: existing?.checkInMs, checkOutMs: now,
                   totalMinutes: totalMinutes ?? 0,
                   checkInNote: existing?.checkInNote || "", checkOutNote: note || "" };
    next[dateKey] = d;
    commit(kids, next);
  }
  \<close>
\<close>

definition doCheckOut :: "jsstring \<Rightarrow> int \<Rightarrow> Snapshot \<Rightarrow> jsstring \<Rightarrow> jsstring \<Rightarrow> Snapshot" where
  "doCheckOut dateKey now snap childId note =
     (let existing = entry (attendance snap) dateKey childId;
          existingCheckInMs = Option.bind existing checkInMs;
          totalMinutes' = minutesBetween existingCheckInMs (Some now);
          next = attendance snap;
          d = dayMapOf next dateKey;
          d = AList.update childId
                \<lparr>status = ABSENT,
                 checkInMs = existingCheckInMs,
                 checkOutMs = Some now,
                 totalMinutes = Some (case totalMinutes' of None \<Rightarrow> 0 | Some m \<Rightarrow> m),
                 checkInNote = Some (orEmpty (Option.bind existing checkInNote)),
                 checkOutNote = Some (orEmpty (Some note))\<rparr> d;
          next = AList.update dateKey d next
      in \<lparr>kids = kids snap, attendance = next\<rparr>)"

section \<open>Notes\<close>

text \<open>
  \<^verbatim>\<open>String.prototype.trim\<close> removes the leading and the trailing run of white space and
  line terminators: the code units U+0009 to U+000D, U+0020, U+00A0, U+1680, U+2000 to
  U+200A, U+2028, U+2029, U+202F, U+205F, U+3000 and U+FEFF. \<^verbatim>\<open>includes\<close> tests for a
  contiguous run of code units.
\<close>

definition isWhiteSpace :: "16 word \<Rightarrow> bool" where
  "isWhiteSpace u \<longleftrightarrow>
     u \<in> set [0x0009, 0x000A, 0x000B, 0x000C, 0x000D, 0x0020, 0x00A0, 0x1680,
              0x2028, 0x2029, 0x202F, 0x205F, 0x3000, 0xFEFF] \<or>
     (0x2000 \<le> u \<and> u \<le> 0x200A)"

definition trim :: "jsstring \<Rightarrow> jsstring" where
  "trim s = rev (dropWhile isWhiteSpace (rev (dropWhile isWhiteSpace s)))"

definition includes' :: "jsstring \<Rightarrow> jsstring \<Rightarrow> bool" where
  "includes' s t = sublist t s"

text \<open>
  \<^verbatim>\<open>String.prototype.toLowerCase\<close> is the case conversion of the Unicode standard, whose
  tables are not part of the program: it is the argument \<open>toLowerCase\<close> of \<open>appendNote\<close>.
  \<^verbatim>\<open>
  function appendNote(current: string, add: string) {
    const c = (current ?? "").trim();
    const a = (add ?? "").trim();
    if (!a) return c;
    if (!c) return a;
    const lc = c.toLowerCase();
    const la = a.toLowerCase();
    if (lc.includes(la)) return c;
    return `${c} \<bullet> ${a}`;
  }
  \<close>
  The separator is a space, the bullet U+2022 and a space.
\<close>

definition appendNote :: "(jsstring \<Rightarrow> jsstring) \<Rightarrow> jsstring \<Rightarrow> jsstring \<Rightarrow> jsstring" where
  "appendNote toLowerCase current add =
     (let c = trim current;
          a = trim add
      in if a = [] then c
         else if c = [] then a
         else let lc = toLowerCase c;
                  la = toLowerCase a
              in if includes' lc la then c
                 else c @ [0x0020, 0x2022, 0x0020] @ a)"

text \<open>
  Two facts about the case conversion are used. The lower case of a string is empty only
  when the string is. The lower case of what follows a space does not depend on what
  precedes the space: the one rule of the conversion that looks at the context of a
  character, for the final sigma, looks no further than across characters that case
  ignores, and a space is not one of them.
\<close>

definition lowerCasing :: "(jsstring \<Rightarrow> jsstring) \<Rightarrow> bool" where
  "lowerCasing toLowerCase \<longleftrightarrow>
     (\<forall>s. toLowerCase s = [] \<longleftrightarrow> s = []) \<and>
     (\<forall>x y. suffix (toLowerCase y) (toLowerCase (x @ 0x0020 # y)))"

text \<open>
  On a string of ASCII characters the conversion replaces \<^verbatim>\<open>A\<close> to \<^verbatim>\<open>Z\<close> by \<^verbatim>\<open>a\<close> to
  \<^verbatim>\<open>z\<close>; \<open>toLowerCaseASCII\<close> does that and leaves every other code unit as it is.
\<close>

definition toLowerCaseASCII :: "jsstring \<Rightarrow> jsstring" where
  "toLowerCaseASCII s = map (\<lambda>u. if 0x0041 \<le> u \<and> u \<le> 0x005A then u + 0x0020 else u) s"

section \<open>Roster operations\<close>

text \<open>
  \<^verbatim>\<open>saveChild\<close> reads the form of the child dialog, its mode and the id being edited. The
  id of a new child is \<^verbatim>\<open>`k_${Math.random().toString(16).slice(2)}`\<close>; the string drawn from
  the random source is the argument \<open>rnd\<close>. A \<^verbatim>\<open>return\<close> before \<^verbatim>\<open>commit\<close> leaves
  the state as it was.
  \<^verbatim>\<open>
  function saveChild() {
    const f = childForm.firstName.trim();
    const l = childForm.lastName.trim();
    const g = childForm.guardian.trim();
    if (!f || !l || !g) return;
    if (childMode === "ADD") {
      const id = `k_${Math.random().toString(16).slice(2)}`;
      const nextKids = [...kids, { id, firstName: f, lastName: l, guardian: g,
                         allergies: childForm.allergies.trim(), isActive: childForm.isActive }];
      commit(nextKids, attendance);
    } else if (childMode === "EDIT" && editId) {
      const nextKids = kids.map((k) => k.id === editId
          ? { ...k, firstName: f, lastName: l, guardian: g,
              allergies: childForm.allergies.trim(), isActive: childForm.isActive }
          : k);
      commit(nextKids, attendance);
    }
    setChildOpen(false);
  }
  \<close>
\<close>

datatype ChildMode = ADD | EDIT

record ChildForm =
  form_firstName :: jsstring
  form_lastName :: jsstring
  form_guardian :: jsstring
  form_allergies :: jsstring
  form_isActive :: bool

definition saveChild ::
  "jsstring \<Rightarrow> ChildMode \<Rightarrow> jsstring option \<Rightarrow> ChildForm \<Rightarrow> Snapshot \<Rightarrow> Snapshot" where
  "saveChild rnd childMode editId childForm snap =
     (let f = trim (form_firstName childForm);
          l = trim (form_lastName childForm);
          g = trim (form_guardian childForm)
      in if f = [] \<or> l = [] \<or> g = [] then snap
         else if childMode = ADD then
           (let newId = js ''k_'' @ rnd;
                nextKids = kids snap @
                  [\<lparr>id' = newId, firstName = f, lastName = l,
                    isActive = form_isActive childForm, guardian = g,
                    allergies = Some (trim (form_allergies childForm))\<rparr>]
            in \<lparr>kids = nextKids, attendance = attendance snap\<rparr>)
         else if childMode = EDIT \<and> orEmpty editId \<noteq> [] then
           (let nextKids = map (\<lambda>k.
                  if Some (id' k) = editId
                  then k\<lparr>firstName := f, lastName := l, guardian := g,
                         allergies := Some (trim (form_allergies childForm)),
                         isActive := form_isActive childForm\<rparr>
                  else k) (kids snap)
            in \<lparr>kids = nextKids, attendance = attendance snap\<rparr>)
         else snap)"

text \<open>
  The Archive/Restore button of a roster row, for the child with id \<open>kid\<close>:
  \<^verbatim>\<open>
  onClick={() => {
    const nextKids = kids.map((x) => (x.id === k.id ? { ...x, isActive: !x.isActive } : x));
    commit(nextKids, attendance);
  }}
  \<close>
\<close>

definition archiveRestore :: "jsstring \<Rightarrow> Snapshot \<Rightarrow> Snapshot" where
  "archiveRestore kid snap =
     (let nextKids = map (\<lambda>x. if id' x = kid then x\<lparr>isActive := \<not> isActive x\<rparr> else x)
                         (kids snap)
      in \<lparr>kids = nextKids, attendance = attendance snap\<rparr>)"

section \<open>Report aggregation\<close>

text \<open>
  \<^verbatim>\<open>
  const totals = new Map<string, { days: number; minutes: number }>();
  const allDays = Object.keys(attendance).sort();
  for (const dKey of allDays) {
    const dm = attendance[dKey] ?? {};
    for (const childId of Object.keys(dm)) {
      const a = dm[childId];
      const mins = typeof a.totalMinutes === "number" ? a.totalMinutes : 0;
      const present = a.status === "PRESENT" || !!a.checkInMs || mins > 0;
      const cur = totals.get(childId) ?? { days: 0, minutes: 0 };
      cur.minutes += mins;
      if (present) cur.days += 1;
      totals.set(childId, cur);
    }
  }
  return kids
    .map((k) => {
      const t = totals.get(k.id) ?? { days: 0, minutes: 0 };
      return { id: k.id, name: `${k.firstName} ${k.lastName}`, days: t.days,
               minutes: t.minutes, active: k.isActive };
    })
    .sort((a, b) => b.minutes - a.minutes);
  \<close>
  The \<^verbatim>\<open>Map\<close> is only read and written by key, so it is a map \<open>jsstring \<rightharpoonup> Totals\<close>.
  The default \<^verbatim>\<open>sort\<close> of the day keys compares strings code unit by code unit, which is
  the lexicographic order of \<open>jsstring\<close>.
  \<^verbatim>\<open>Array.prototype.sort\<close> is stable, so with the comparator \<^verbatim>\<open>b.minutes - a.minutes\<close> it is
  the stable sort on the key \<open>- minutes\<close>.
\<close>

record Totals =
  days :: nat
  minutes :: int

record ReportRow =
  row_id :: jsstring
  row_name :: jsstring
  row_days :: nat
  row_minutes :: int
  row_active :: bool

definition mins :: "Attendance \<Rightarrow> int" where
  "mins a = (case totalMinutes a of Some m \<Rightarrow> m | None \<Rightarrow> 0)"

definition present :: "Attendance \<Rightarrow> bool" where
  "present a \<longleftrightarrow> status a = PRESENT \<or> truthy (checkInMs a) \<or> mins a > 0"

text \<open>\<^verbatim>\<open>totals.get(id) ?? { days: 0, minutes: 0 }\<close>\<close>

definition getOrZero :: "(jsstring \<rightharpoonup> Totals) \<Rightarrow> jsstring \<Rightarrow> Totals" where
  "getOrZero totals childId =
     (case totals childId of None \<Rightarrow> \<lparr>days = 0, minutes = 0\<rparr> | Some t \<Rightarrow> t)"

text \<open>The body of the inner loop, after \<^verbatim>\<open>a = dm[childId]\<close> has been read.\<close>

definition tally :: "(jsstring \<rightharpoonup> Totals) \<Rightarrow> jsstring \<Rightarrow> Attendance \<Rightarrow> (jsstring \<rightharpoonup> Totals)" where
  "tally totals childId a =
     (let cur = getOrZero totals childId;
          cur = cur\<lparr>minutes := minutes cur + mins a\<rparr>;
          cur = (if present a then cur\<lparr>days := days cur + 1\<rparr> else cur)
      in totals(childId \<mapsto> cur))"

text \<open>
  The inner loop over \<^verbatim>\<open>Object.keys(dm)\<close>. Every key that is listed has a value, so the
  \<open>None\<close> branch is never taken.
\<close>

definition tallyDay :: "DayMap \<Rightarrow> (jsstring \<rightharpoonup> Totals) \<Rightarrow> (jsstring \<rightharpoonup> Totals)" where
  "tallyDay dm totals =
     fold (\<lambda>childId totals.
             case map_of dm childId of None \<Rightarrow> totals | Some a \<Rightarrow> tally totals childId a)
          (map fst dm) totals"

definition reportTotals :: "AttendanceHistory \<Rightarrow> (jsstring \<rightharpoonup> Totals)" where
  "reportTotals att =
     (let allDays = sort (map fst att)
      in fold (\<lambda>dKey totals. tallyDay (dayMapOf att dKey) totals) allDays Map.empty)"

definition rowOf :: "(jsstring \<rightharpoonup> Totals) \<Rightarrow> Child \<Rightarrow> ReportRow" where
  "rowOf totals k =
     (let t = getOrZero totals (id' k)
      in \<lparr>row_id = id' k, row_name = firstName k @ (js '' '') @ lastName k, row_days = days t,
          row_minutes = minutes t, row_active = isActive k\<rparr>)"

definition reportRows :: "Snapshot \<Rightarrow> ReportRow list" where
  "reportRows snap =
     (let totals = reportTotals (attendance snap)
      in sort_key (\<lambda>r. - row_minutes r) (map (rowOf totals) (kids snap)))"

subsection \<open>The aggregate as the specification words it\<close>

text \<open>
  The day records of one child, the sum of their minutes, and the number of them that
  satisfy the presence predicate as the specification states it: the status is
  \<open>PRESENT\<close>, or \<open>checkInMs\<close> is set, or \<open>totalMinutes\<close> is positive.
\<close>

definition recordsOf :: "AttendanceHistory \<Rightarrow> jsstring \<Rightarrow> Attendance list" where
  "recordsOf att childId = List.map_filter (\<lambda>p. map_of (snd p) childId) att"

definition spec_present :: "Attendance \<Rightarrow> bool" where
  "spec_present a \<longleftrightarrow>
     status a = PRESENT \<or> checkInMs a \<noteq> None \<or>
     (case totalMinutes a of None \<Rightarrow> False | Some m \<Rightarrow> m > 0)"

definition spec_minutes :: "AttendanceHistory \<Rightarrow> jsstring \<Rightarrow> int" where
  "spec_minutes att childId =
     sum_list (map (\<lambda>a. case totalMinutes a of None \<Rightarrow> 0 | Some m \<Rightarrow> m) (recordsOf att childId))"

definition spec_days :: "AttendanceHistory \<Rightarrow> jsstring \<Rightarrow> nat" where
  "spec_days att childId = length (filter spec_present (recordsOf att childId))"

section \<open>A sample state\<close>

definition exampleSnapshot :: Snapshot where
  "exampleSnapshot =
     \<lparr>kids =
        [\<lparr>id' = js ''k1'', firstName = js ''Hannah'', lastName = js ''C.'', isActive = True,
          guardian = js ''Andrea'', allergies = Some []\<rparr>,
         \<lparr>id' = js ''k2'', firstName = js ''Morgan'', lastName = js ''C.'', isActive = True,
          guardian = js ''Andrea'', allergies = Some (js ''Peanuts'')\<rparr>,
         \<lparr>id' = js ''k3'', firstName = js ''Riley'', lastName = js ''D.'', isActive = False,
          guardian = js ''Sam'', allergies = None\<rparr>,
         \<lparr>id' = js ''k4'', firstName = js ''Jo'', lastName = js ''E.'', isActive = True,
          guardian = js ''Pat'', allergies = None\<rparr>],
      attendance =
        [(js ''2024-03-05'',
           [(js ''k2'', \<lparr>status = PRESENT, checkInMs = Some 1709629200000,
                      checkOutMs = None, totalMinutes = None,
                      checkInNote = Some (js ''Dropped off by Mom''), checkOutNote = Some []\<rparr>)]),
         (js ''2024-03-04'',
           [(js ''k1'', \<lparr>status = ABSENT, checkInMs = Some 1709542800000,
                      checkOutMs = Some 1709545500000, totalMinutes = Some 45,
                      checkInNote = Some (js ''Late arrival''), checkOutNote = Some []\<rparr>),
            (js ''k2'', \<lparr>status = ABSENT, checkInMs = Some 1709542800000,
                      checkOutMs = Some 1709546400000, totalMinutes = Some 60,
                      checkInNote = Some [], checkOutNote = Some (js ''Ate well'')\<rparr>)])]\<rparr>"

text \<open>A form of the child dialog, with white space around some of its fields.\<close>

definition exampleForm :: ChildForm where
  "exampleForm =
     \<lparr>form_firstName = js '' Ann'', form_lastName = js ''B. '', form_guardian = js ''Gale'',
      form_allergies = js '' Eggs '', form_isActive = True\<rparr>"

text \<open>
  A state whose only record carries the timestamp 0: the child was checked in at the first
  millisecond of 1970 and checked out a minute later.
\<close>

definition zeroStampSnapshot :: Snapshot where
  "zeroStampSnapshot =
     \<lparr>kids =
        [\<lparr>id' = js ''k1'', firstName = js ''Hannah'', lastName = js ''C.'', isActive = True,
          guardian = js ''Andrea'', allergies = Some []\<rparr>],
      attendance =
        [(js ''1970-01-01'',
           [(js ''k1'', \<lparr>status = ABSENT, checkInMs = Some 0, checkOutMs = Some 60000,
                      totalMinutes = Some 0, checkInNote = Some [],
                      checkOutNote = Some []\<rparr>)])]\<rparr>"

section \<open>Durations\<close>

lemma round_div_60000: "round (real_of_int d / 60000) = (d + 30000) div 60000"
proof -
  have "real_of_int d / 60000 + 1 / 2 = real_of_int (d + 30000) / real_of_int 60000"
    by (simp add: field_simps)
  then show ?thesis
    unfolding round_def by (simp only: floor_divide_of_int_eq)
qed

text \<open>
  Claim C3, as the code has it. \<open>minutesBetween\<close> tests its endpoints with \<^verbatim>\<open>!\<close>, so a
  timestamp of 0 counts as missing, as it does in \<^verbatim>\<open>fmtTime\<close> and in the report. For
  endpoints that are present and not 0: when \<open>s \<le> e\<close> the result is
  \<open>round ((e - s) / 60000)\<close>, which is \<open>(e - s + 30000) div 60000\<close> and is not negative;
  when \<open>e < s\<close>, or an endpoint is 0 or missing, the result is absent.
\<close>

theorem minutesBetween_nonzero:
  "(s \<noteq> 0 \<and> e \<noteq> 0 \<and> s \<le> e \<longrightarrow>
      minutesBetween (Some s) (Some e) = Some (round (real_of_int (e - s) / 60000)) \<and>
      round (real_of_int (e - s) / 60000) = (e - s + 30000) div 60000 \<and>
      0 \<le> round (real_of_int (e - s) / 60000)) \<and>
   (e < s \<or> s = 0 \<or> e = 0 \<longrightarrow> minutesBetween (Some s) (Some e) = None) \<and>
   minutesBetween None y = None \<and> minutesBetween x None = None"
proof -
  let ?m = "round (real_of_int (e - s) / 60000)"
  have eq: "?m = (e - s + 30000) div 60000"
    by (rule round_div_60000)
  have nonneg: "0 \<le> ?m" if "s \<le> e"
    unfolding eq using that by (simp add: pos_imp_zdiv_nonneg_iff)
  have some: "minutesBetween (Some s) (Some e) = Some ?m" if "s \<noteq> 0" "e \<noteq> 0" "s \<le> e"
    using that by (simp add: minutesBetween_def truthy_def Let_def del: of_int_diff)
  have none: "minutesBetween (Some s) (Some e) = None" if "e < s \<or> s = 0 \<or> e = 0"
    using that by (auto simp add: minutesBetween_def truthy_def Let_def)
  have "minutesBetween None y = None" "minutesBetween x None = None"
    by (simp_all add: minutesBetween_def truthy_def)
  with eq nonneg some none show ?thesis by blast
qed

text \<open>A check-in at 09:00:00 and a check-out at 09:30:30 give 31 minutes; swapped, nothing.\<close>

theorem minutesBetween_nonzero_witness:
  "minutesBetween (Some 1709542800000) (Some 1709544630000) = Some 31 \<and>
   minutesBetween (Some 1709544630000) (Some 1709542800000) = None"
  using minutesBetween_nonzero [of 1709542800000 1709544630000]
        minutesBetween_nonzero [of 1709544630000 1709542800000]
  by simp

text \<open>
  Claim C3 as it is stated fails when an endpoint is the timestamp 0: both endpoints
  are present and \<open>0 \<le> 60000\<close>, yet the result is absent and not \<open>round (60000 / 60000)\<close>.
\<close>

theorem minutesBetween_zero_counterexample:
  "(0::int) \<le> 60000 \<and>
   minutesBetween (Some 0) (Some 60000) = None \<and>
   minutesBetween (Some 0) (Some 60000) \<noteq> Some (round (real_of_int (60000 - 0) / 60000))"
  by (simp add: minutesBetween_def truthy_def)

section \<open>Check-in and check-out\<close>

lemma entry_update_same:
  "entry (AList.update dKey (AList.update childId r (dayMapOf att dKey)) att) dKey childId = Some r"
  by (simp add: entry_def dayMapOf_def update_conv')

lemma entry_update_other:
  "(d, c) \<noteq> (dKey, childId) \<Longrightarrow>
   entry (AList.update dKey (AList.update childId r (dayMapOf att dKey)) att) d c = entry att d c"
  by (auto simp add: entry_def dayMapOf_def update_conv' split: option.splits)

lemma attendance_doCheckIn:
  "attendance (doCheckIn dateKey now snap childId note) =
     AList.update dateKey
       (AList.update childId
          \<lparr>status = PRESENT, checkInMs = Some now, checkOutMs = None, totalMinutes = None,
           checkInNote = Some note, checkOutNote = Some []\<rparr>
          (dayMapOf (attendance snap) dateKey))
       (attendance snap)"
  by (simp add: doCheckIn_def Let_def orEmpty_def)

lemma attendance_doCheckOut:
  "attendance (doCheckOut dateKey now snap childId note) =
     AList.update dateKey
       (AList.update childId
          \<lparr>status = ABSENT,
           checkInMs = Option.bind (entry (attendance snap) dateKey childId) checkInMs,
           checkOutMs = Some now,
           totalMinutes = Some (case minutesBetween
               (Option.bind (entry (attendance snap) dateKey childId) checkInMs) (Some now)
               of None \<Rightarrow> 0 | Some m \<Rightarrow> m),
           checkInNote =
             Some (orEmpty (Option.bind (entry (attendance snap) dateKey childId) checkInNote)),
           checkOutNote = Some note\<rparr>
          (dayMapOf (attendance snap) dateKey))
       (attendance snap)"
  by (simp add: doCheckOut_def Let_def orEmpty_def)

text \<open>
  Claim C1. After a check-in of child \<open>childId\<close> with note \<open>note\<close> at instant \<open>now\<close>,
  whatever the snapshot held before, the record of that child for the day has status
  \<open>PRESENT\<close>, \<open>checkInMs = now\<close>, no \<open>checkOutMs\<close> and no \<open>totalMinutes\<close>, the given note
  as \<open>checkInNote\<close> (which is \<^verbatim>\<open>""\<close> when the note is empty) and \<^verbatim>\<open>""\<close> as \<open>checkOutNote\<close>.
\<close>

theorem doCheckIn_record:
  "entry (attendance (doCheckIn dateKey now snap childId note)) dateKey childId =
     Some \<lparr>status = PRESENT, checkInMs = Some now, checkOutMs = None, totalMinutes = None,
           checkInNote = Some note, checkOutNote = Some []\<rparr>"
  by (simp only: attendance_doCheckIn entry_update_same)

text \<open>
  On the sample state: a check-in of \<open>k2\<close>, who is already present, restarts the session;
  a check-in of \<open>k1\<close> on a day with no records creates the record.
\<close>

theorem doCheckIn_record_witness:
  "entry (attendance (doCheckIn (js ''2024-03-05'') 1709629500000 exampleSnapshot (js ''k2'')
       (js ''Dropped off by Dad''))) (js ''2024-03-05'') (js ''k2'') =
     Some \<lparr>status = PRESENT, checkInMs = Some 1709629500000, checkOutMs = None,
           totalMinutes = None, checkInNote = Some (js ''Dropped off by Dad''),
           checkOutNote = Some []\<rparr> \<and>
   entry (attendance (doCheckIn (js ''2024-03-06'') 1709715600000 exampleSnapshot (js ''k1'') []))
       (js ''2024-03-06'') (js ''k1'') =
     Some \<lparr>status = PRESENT, checkInMs = Some 1709715600000, checkOutMs = None,
           totalMinutes = None, checkInNote = Some [], checkOutNote = Some []\<rparr>"
  using doCheckIn_record [of "js ''2024-03-05''" 1709629500000 exampleSnapshot "js ''k2''"
      "js ''Dropped off by Dad''"]
    doCheckIn_record [of "js ''2024-03-06''" 1709715600000 exampleSnapshot "js ''k1''" "[]"]
  by simp

text \<open>
  Claim C2. After a check-out the record of the child for the day has status \<open>ABSENT\<close>,
  \<open>checkOutMs = now\<close> and the given note as \<open>checkOutNote\<close>. With no prior record
  \<open>checkInMs\<close> is absent, \<open>totalMinutes\<close> is 0 and \<open>checkInNote\<close> is \<^verbatim>\<open>""\<close>. With a prior
  record \<open>ex\<close>, \<open>checkInMs\<close> is that of \<open>ex\<close>, \<open>totalMinutes\<close> is
  \<open>minutesBetween (checkInMs ex) now\<close>, or 0 when that is absent, and \<open>checkInNote\<close> is the
  note text of \<open>ex\<close> (a note field that \<open>ex\<close> lacks reads as \<^verbatim>\<open>""\<close>).
\<close>

theorem doCheckOut_record:
  "entry (attendance (doCheckOut dateKey now snap childId note)) dateKey childId =
     Some (case entry (attendance snap) dateKey childId of
        None \<Rightarrow>
          \<lparr>status = ABSENT, checkInMs = None, checkOutMs = Some now, totalMinutes = Some 0,
           checkInNote = Some [], checkOutNote = Some note\<rparr>
      | Some ex \<Rightarrow>
          \<lparr>status = ABSENT, checkInMs = checkInMs ex, checkOutMs = Some now,
           totalMinutes =
             Some (case minutesBetween (checkInMs ex) (Some now) of None \<Rightarrow> 0 | Some m \<Rightarrow> m),
           checkInNote = Some (case checkInNote ex of None \<Rightarrow> [] | Some t \<Rightarrow> t),
           checkOutNote = Some note\<rparr>)"
  by (simp add: attendance_doCheckOut entry_update_same orEmpty_def minutesBetween_def truthy_def
      split: option.splits)

text \<open>
  On the sample state: \<open>k2\<close>, checked in at 09:00, is checked out at 09:30 and gets 30
  minutes; \<open>k3\<close>, who has no record for the day, is checked out with 0 minutes.
\<close>

theorem doCheckOut_record_witness:
  "entry (attendance (doCheckOut (js ''2024-03-05'') 1709631000000 exampleSnapshot (js ''k2'') []))
       (js ''2024-03-05'') (js ''k2'') =
     Some \<lparr>status = ABSENT, checkInMs = Some 1709629200000, checkOutMs = Some 1709631000000,
           totalMinutes = Some 30, checkInNote = Some (js ''Dropped off by Mom''),
           checkOutNote = Some []\<rparr> \<and>
   entry (attendance (doCheckOut (js ''2024-03-05'') 1709631000000 exampleSnapshot (js ''k3'')
       (js ''Picked up by Dad''))) (js ''2024-03-05'') (js ''k3'') =
     Some \<lparr>status = ABSENT, checkInMs = None, checkOutMs = Some 1709631000000,
           totalMinutes = Some 0, checkInNote = Some [],
           checkOutNote = Some (js ''Picked up by Dad'')\<rparr>"
  using doCheckOut_record [of "js ''2024-03-05''" 1709631000000 exampleSnapshot "js ''k2''" "[]"]
    doCheckOut_record [of "js ''2024-03-05''" 1709631000000 exampleSnapshot "js ''k3''"
      "js ''Picked up by Dad''"]
  by (simp add: js_def exampleSnapshot_def entry_def dayMapOf_def minutesBetween_def truthy_def
      round_def)

text \<open>
  Claim C6. A check-in or a check-out of child \<open>childId\<close> on day \<open>dateKey\<close> leaves the
  record of every other (day, child) pair as it was; the object of every other day is
  the same object; the roster is not touched.
\<close>

theorem transitions_frame:
  "((d, c) \<noteq> (dateKey, childId) \<longrightarrow>
      entry (attendance (doCheckIn dateKey now snap childId note)) d c =
        entry (attendance snap) d c \<and>
      entry (attendance (doCheckOut dateKey now snap childId note)) d c =
        entry (attendance snap) d c) \<and>
   (d \<noteq> dateKey \<longrightarrow>
      map_of (attendance (doCheckIn dateKey now snap childId note)) d =
        map_of (attendance snap) d \<and>
      map_of (attendance (doCheckOut dateKey now snap childId note)) d =
        map_of (attendance snap) d) \<and>
   kids (doCheckIn dateKey now snap childId note) = kids snap \<and>
   kids (doCheckOut dateKey now snap childId note) = kids snap"
proof -
  have "entry (attendance (doCheckIn dateKey now snap childId note)) d c =
          entry (attendance snap) d c"
       "entry (attendance (doCheckOut dateKey now snap childId note)) d c =
          entry (attendance snap) d c"
    if "(d, c) \<noteq> (dateKey, childId)"
    using that by (simp_all add: attendance_doCheckIn attendance_doCheckOut entry_update_other)
  moreover have "map_of (attendance (doCheckIn dateKey now snap childId note)) d =
          map_of (attendance snap) d"
       "map_of (attendance (doCheckOut dateKey now snap childId note)) d =
          map_of (attendance snap) d"
    if "d \<noteq> dateKey"
    using that by (simp_all add: attendance_doCheckIn attendance_doCheckOut update_conv')
  moreover have "kids (doCheckIn dateKey now snap childId note) = kids snap"
    "kids (doCheckOut dateKey now snap childId note) = kids snap"
    by (simp_all add: doCheckIn_def doCheckOut_def Let_def)
  ultimately show ?thesis by blast
qed

text \<open>
  On the sample state, checking \<open>k1\<close> in or out on 2024-03-05 keeps the record of \<open>k2\<close>
  for that day and the whole of 2024-03-04.
\<close>

theorem transitions_frame_witness:
  "entry (attendance (doCheckIn (js ''2024-03-05'') 1709629500000 exampleSnapshot (js ''k1'') (js ''Runny nose'')))
      (js ''2024-03-05'') (js ''k2'') = entry (attendance exampleSnapshot) (js ''2024-03-05'') (js ''k2'') \<and>
   entry (attendance (doCheckOut (js ''2024-03-05'') 1709629500000 exampleSnapshot (js ''k1'') (js ''Runny nose'')))
      (js ''2024-03-05'') (js ''k2'') = entry (attendance exampleSnapshot) (js ''2024-03-05'') (js ''k2'') \<and>
   entry (attendance exampleSnapshot) (js ''2024-03-05'') (js ''k2'') =
     Some \<lparr>status = PRESENT, checkInMs = Some 1709629200000,
           checkOutMs = None, totalMinutes = None,
           checkInNote = Some (js ''Dropped off by Mom''), checkOutNote = Some []\<rparr> \<and>
   map_of (attendance (doCheckIn (js ''2024-03-05'') 1709629500000 exampleSnapshot (js ''k1'') (js ''Runny nose'')))
      (js ''2024-03-04'') = map_of (attendance exampleSnapshot) (js ''2024-03-04'') \<and>
   map_of (attendance (doCheckOut (js ''2024-03-05'') 1709629500000 exampleSnapshot (js ''k1'') (js ''Runny nose'')))
      (js ''2024-03-04'') = map_of (attendance exampleSnapshot) (js ''2024-03-04'')"
  using transitions_frame [of "js ''2024-03-05''" "js ''k2''" "js ''2024-03-05''" "js ''k1''" 1709629500000
      exampleSnapshot "js ''Runny nose''"]
    transitions_frame [of "js ''2024-03-04''" "js ''k2''" "js ''2024-03-05''" "js ''k1''" 1709629500000
      exampleSnapshot "js ''Runny nose''"]
  by (simp add: js_def exampleSnapshot_def entry_def dayMapOf_def)

section \<open>Merging notes\<close>

lemma last_dropWhile_nonempty: "dropWhile P xs \<noteq> [] \<Longrightarrow> last (dropWhile P xs) = last xs"
  by (induction xs) (auto split: if_splits)

lemma trim_fixed:
  assumes "s = [] \<or> (\<not> isWhiteSpace (hd s) \<and> \<not> isWhiteSpace (last s))"
  shows "trim s = s"
proof (cases "s = []")
  case True
  then show ?thesis by (simp add: trim_def)
next
  case False
  with assms have h: "\<not> isWhiteSpace (hd s)" and l: "\<not> isWhiteSpace (last s)" by auto
  from h have "dropWhile isWhiteSpace s = s"
    by (simp add: dropWhile_eq_self_iff)
  moreover from False l have "dropWhile isWhiteSpace (rev s) = rev s"
    by (simp add: dropWhile_eq_self_iff hd_rev)
  ultimately show ?thesis by (simp add: trim_def)
qed

lemma trim_ends:
  assumes "trim s \<noteq> []"
  shows "\<not> isWhiteSpace (hd (trim s))" and "\<not> isWhiteSpace (last (trim s))"
proof -
  let ?t = "dropWhile isWhiteSpace s"
  let ?u = "dropWhile isWhiteSpace (rev ?t)"
  from assms have u: "?u \<noteq> []" by (simp add: trim_def)
  then have t: "?t \<noteq> []" by (metis dropWhile.simps(1) rev.simps(1))
  have "last (trim s) = hd ?u" using u by (simp add: trim_def last_rev)
  with u show "\<not> isWhiteSpace (last (trim s))" by (simp add: hd_dropWhile)
  have "hd (trim s) = last ?u" using u by (simp add: trim_def hd_rev)
  also have "\<dots> = last (rev ?t)" using u by (rule last_dropWhile_nonempty)
  also have "\<dots> = hd ?t" using t by (simp add: last_rev)
  finally show "\<not> isWhiteSpace (hd (trim s))" using t by (simp add: hd_dropWhile)
qed

lemma trim_trim: "trim (trim s) = trim s"
  by (rule trim_fixed) (use trim_ends [of s] in blast)

lemma trim_join:
  assumes "trim c \<noteq> []" and "trim a \<noteq> []"
  shows "trim (trim c @ m @ trim a) = trim c @ m @ trim a"
proof (rule trim_fixed)
  from assms trim_ends [of c] trim_ends [of a]
  show "trim c @ m @ trim a = [] \<or>
    (\<not> isWhiteSpace (hd (trim c @ m @ trim a)) \<and> \<not> isWhiteSpace (last (trim c @ m @ trim a)))"
    by simp
qed

lemma includes_refl: "includes' s s"
  by (simp add: includes'_def)

lemma includes_empty: "includes' [] t \<longleftrightarrow> t = []"
  by (simp add: includes'_def)

lemma includes_join:
  assumes "lowerCasing toLowerCase"
  shows "includes' (toLowerCase (c @ [0x0020, 0x2022, 0x0020] @ a)) (toLowerCase a)"
proof -
  from assms have "suffix (toLowerCase a) (toLowerCase ((c @ [0x0020, 0x2022]) @ 0x0020 # a))"
    unfolding lowerCasing_def by blast
  then have "suffix (toLowerCase a) (toLowerCase (c @ [0x0020, 0x2022, 0x0020] @ a))"
    by simp
  then show ?thesis
    unfolding includes'_def by (rule suffix_imp_sublist)
qed

lemma lowerCasing_empty: "lowerCasing toLowerCase \<Longrightarrow> toLowerCase s = [] \<longleftrightarrow> s = []"
  unfolding lowerCasing_def by blast

lemma lowerCasing_ASCII: "lowerCasing toLowerCaseASCII"
  by (simp add: lowerCasing_def toLowerCaseASCII_def suffix_def)

lemma appendNote_cases:
  "appendNote toLowerCase c a =
     (if trim a = [] then trim c
      else if trim c = [] then trim a
      else if includes' (toLowerCase (trim c)) (toLowerCase (trim a)) then trim c
      else trim c @ [0x0020, 0x2022, 0x0020] @ trim a)"
  by (simp add: appendNote_def Let_def)

lemma appendNote_trimmed: "trim (appendNote toLowerCase c a) = appendNote toLowerCase c a"
  using trim_join [of c a "[0x0020, 0x2022, 0x0020]"]
  by (simp add: appendNote_cases trim_trim)

text \<open>
  Claim C7. For every case conversion with the two properties of \<open>lowerCasing\<close> and
  for all strings \<open>c\<close> and \<open>a\<close>, adding the same note a second time changes nothing:
  \<open>appendNote (appendNote c a) a = appendNote c a\<close>. The function trims both inputs first;
  when the current note, trimmed and in lower case, contains the addition, trimmed and in
  lower case, the result is the trimmed current note, which is the current note itself
  when that has no white space at either end.
\<close>

theorem appendNote_idempotent:
  assumes "lowerCasing toLowerCase"
  shows "appendNote toLowerCase (appendNote toLowerCase c a) a = appendNote toLowerCase c a \<and>
   (includes' (toLowerCase (trim c)) (toLowerCase (trim a)) \<longrightarrow>
      appendNote toLowerCase c a = trim c \<and> (trim c = c \<longrightarrow> appendNote toLowerCase c a = c))"
proof -
  let ?r = "appendNote toLowerCase c a"
  have idem: "appendNote toLowerCase ?r a = ?r"
  proof -
    have "appendNote toLowerCase ?r a =
      (if trim a = [] then ?r
       else if ?r = [] then trim a
       else if includes' (toLowerCase ?r) (toLowerCase (trim a)) then ?r
       else ?r @ [0x0020, 0x2022, 0x0020] @ trim a)"
      by (subst appendNote_cases) (simp only: appendNote_trimmed)
    moreover have "trim a \<noteq> [] \<Longrightarrow> ?r \<noteq> []"
      by (simp add: appendNote_cases)
    moreover have "trim a \<noteq> [] \<Longrightarrow> includes' (toLowerCase ?r) (toLowerCase (trim a))"
      using includes_join [OF assms, of "trim c" "trim a"]
      by (simp add: appendNote_cases includes_refl)
    ultimately show ?thesis by simp
  qed
  have fixed: "?r = trim c"
    if inc: "includes' (toLowerCase (trim c)) (toLowerCase (trim a))"
  proof (cases "trim a = []")
    case True
    then show ?thesis by (simp add: appendNote_cases)
  next
    case a: False
    show ?thesis
    proof (cases "trim c = []")
      case True
      from assms have "toLowerCase [] = []"
        by (simp add: lowerCasing_empty)
      with True inc have "toLowerCase (trim a) = []"
        by (simp add: includes_empty)
      with assms have "trim a = []"
        by (simp add: lowerCasing_empty)
      with a show ?thesis by contradiction
    next
      case False
      with a inc show ?thesis by (simp add: appendNote_cases)
    qed
  qed
  show ?thesis
  proof (intro conjI impI)
    show "appendNote toLowerCase ?r a = ?r" by (rule idem)
  next
    assume "includes' (toLowerCase (trim c)) (toLowerCase (trim a))"
    then show "?r = trim c" by (rule fixed)
  next
    assume "includes' (toLowerCase (trim c)) (toLowerCase (trim a))" and "trim c = c"
    then show "?r = c" using fixed by simp
  qed
qed

text \<open>
  With the conversion of ASCII strings: a quick note tapped twice is appended once, and a
  current note that starts with a no-break space and holds the addition in another case
  comes back trimmed.
\<close>

theorem appendNote_idempotent_witness:
  "lowerCasing toLowerCaseASCII \<and>
   appendNote toLowerCaseASCII (js ''Late pickup'') (js ''Picked up by Mom'') =
     js ''Late pickup'' @ [0x0020, 0x2022, 0x0020] @ js ''Picked up by Mom'' \<and>
   appendNote toLowerCaseASCII
     (js ''Late pickup'' @ [0x0020, 0x2022, 0x0020] @ js ''Picked up by Mom'')
     (js ''Picked up by Mom'') =
     js ''Late pickup'' @ [0x0020, 0x2022, 0x0020] @ js ''Picked up by Mom'' \<and>
   includes' (toLowerCaseASCII (trim (0x00A0 # js ''Mom ''))) (toLowerCaseASCII (trim (js ''mom''))) \<and>
   appendNote toLowerCaseASCII (0x00A0 # js ''Mom '') (js ''mom'') = js ''Mom''"
proof -
  note L = lowerCasing_ASCII
  have first: "appendNote toLowerCaseASCII (js ''Late pickup'') (js ''Picked up by Mom'') =
     js ''Late pickup'' @ [0x0020, 0x2022, 0x0020] @ js ''Picked up by Mom''"
    by code_simp
  from appendNote_idempotent [OF L, of "js ''Late pickup''" "js ''Picked up by Mom''"]
  have second: "appendNote toLowerCaseASCII
     (js ''Late pickup'' @ [0x0020, 0x2022, 0x0020] @ js ''Picked up by Mom'')
     (js ''Picked up by Mom'') =
     js ''Late pickup'' @ [0x0020, 0x2022, 0x0020] @ js ''Picked up by Mom''"
    by (simp only: first)
  have inc: "includes' (toLowerCaseASCII (trim (0x00A0 # js ''Mom '')))
      (toLowerCaseASCII (trim (js ''mom'')))"
    by code_simp
  have tr: "trim (0x00A0 # js ''Mom '') = js ''Mom''"
    by code_simp
  from appendNote_idempotent [OF L, of "0x00A0 # js ''Mom ''" "js ''mom''"] inc
  have "appendNote toLowerCaseASCII (0x00A0 # js ''Mom '') (js ''mom'') =
      trim (0x00A0 # js ''Mom '')"
    by blast
  with tr have third: "appendNote toLowerCaseASCII (0x00A0 # js ''Mom '') (js ''mom'') = js ''Mom''"
    by simp
  from L first second inc third show ?thesis by blast
qed

section \<open>Roster edits\<close>

text \<open>
  Claim C9, as the code has it. When the first name, the last name or the guardian of
  the form is empty after trimming, \<open>saveChild\<close> returns the snapshot it was given, in the
  add mode and in the edit mode. When the three are non-empty, the add mode appends one
  child to the roster, with the trimmed names, guardian and allergies, the form's active
  flag and the id \<^verbatim>\<open>k_\<close> followed by the string drawn from the random source; the history
  is not touched. The id is not compared with the ids of the roster: a roster of pairwise
  different ids stays one exactly when the new id is not already in it.
\<close>

theorem saveChild_validation:
  "(trim (form_firstName childForm) = [] \<or> trim (form_lastName childForm) = [] \<or>
    trim (form_guardian childForm) = [] \<longrightarrow>
      saveChild rnd childMode editId childForm snap = snap) \<and>
   (trim (form_firstName childForm) \<noteq> [] \<and> trim (form_lastName childForm) \<noteq> [] \<and>
    trim (form_guardian childForm) \<noteq> [] \<longrightarrow>
      saveChild rnd ADD editId childForm snap =
        \<lparr>kids = kids snap @
           [\<lparr>id' = js ''k_'' @ rnd,
             firstName = trim (form_firstName childForm),
             lastName = trim (form_lastName childForm),
             isActive = form_isActive childForm,
             guardian = trim (form_guardian childForm),
             allergies = Some (trim (form_allergies childForm))\<rparr>],
         attendance = attendance snap\<rparr> \<and>
      (distinct (map id' (kids snap)) \<longrightarrow>
         distinct (map id' (kids (saveChild rnd ADD editId childForm snap))) =
           (js ''k_'' @ rnd \<notin> set (map id' (kids snap)))))"
  by (simp add: saveChild_def Let_def)

text \<open>
  A form whose guardian is a no-break space and a space is declined in both modes; a
  complete form adds a child, and the ids stay pairwise different.
\<close>

theorem saveChild_validation_witness:
  "trim (form_guardian (exampleForm\<lparr>form_guardian := [0x00A0, 0x0020]\<rparr>)) = [] \<and>
   saveChild (js ''3f2a9c'') ADD None (exampleForm\<lparr>form_guardian := [0x00A0, 0x0020]\<rparr>)
     exampleSnapshot = exampleSnapshot \<and>
   saveChild (js ''3f2a9c'') EDIT (Some (js ''k1''))
     (exampleForm\<lparr>form_guardian := [0x00A0, 0x0020]\<rparr>) exampleSnapshot = exampleSnapshot \<and>
   saveChild (js ''3f2a9c'') ADD None exampleForm exampleSnapshot =
     \<lparr>kids = kids exampleSnapshot @
        [\<lparr>id' = js ''k_3f2a9c'', firstName = js ''Ann'', lastName = js ''B.'', isActive = True,
          guardian = js ''Gale'', allergies = Some (js ''Eggs'')\<rparr>],
      attendance = attendance exampleSnapshot\<rparr> \<and>
   distinct (map id' (kids exampleSnapshot)) \<and>
   js ''k_'' @ js ''3f2a9c'' \<notin> set (map id' (kids exampleSnapshot)) \<and>
   distinct (map id' (kids (saveChild (js ''3f2a9c'') ADD None exampleForm exampleSnapshot)))"
proof -
  let ?blank = "exampleForm\<lparr>form_guardian := [0x00A0, 0x0020]\<rparr>"
  have b: "trim (form_guardian ?blank) = []"
    by code_simp
  have v: "trim (form_firstName exampleForm) = js ''Ann'' \<and>
      trim (form_lastName exampleForm) = js ''B.'' \<and>
      trim (form_guardian exampleForm) = js ''Gale'' \<and>
      trim (form_allergies exampleForm) = js ''Eggs'' \<and> form_isActive exampleForm"
    by code_simp
  have ne: "js ''Ann'' \<noteq> [] \<and> js ''B.'' \<noteq> [] \<and> js ''Gale'' \<noteq> []"
    by (simp add: js_def)
  have d: "distinct (map id' (kids exampleSnapshot))"
    by code_simp
  have f: "js ''k_'' @ js ''3f2a9c'' \<notin> set (map id' (kids exampleSnapshot))"
    by code_simp
  have k: "js ''k_'' @ js ''3f2a9c'' = js ''k_3f2a9c''"
    by (simp add: js_def)
  from saveChild_validation [of ?blank "js ''3f2a9c''" ADD None exampleSnapshot] b
  have one: "saveChild (js ''3f2a9c'') ADD None ?blank exampleSnapshot = exampleSnapshot"
    by blast
  from saveChild_validation [of ?blank "js ''3f2a9c''" EDIT "Some (js ''k1'')" exampleSnapshot] b
  have two: "saveChild (js ''3f2a9c'') EDIT (Some (js ''k1'')) ?blank exampleSnapshot =
      exampleSnapshot"
    by blast
  from saveChild_validation [of exampleForm "js ''3f2a9c''" ADD None exampleSnapshot] v ne d f
  have three: "saveChild (js ''3f2a9c'') ADD None exampleForm exampleSnapshot =
     \<lparr>kids = kids exampleSnapshot @
        [\<lparr>id' = js ''k_3f2a9c'', firstName = js ''Ann'', lastName = js ''B.'', isActive = True,
          guardian = js ''Gale'', allergies = Some (js ''Eggs'')\<rparr>],
      attendance = attendance exampleSnapshot\<rparr>"
    and four: "distinct (map id' (kids (saveChild (js ''3f2a9c'') ADD None exampleForm
      exampleSnapshot)))"
    by (simp_all add: k)
  from b one two three d f four show ?thesis by blast
qed

text \<open>
  Claim C9 as it is stated gives the new child a fresh id. When the random source gives
  0.5 twice, the draw is \<^verbatim>\<open>8\<close> both times: the second child gets the id of the first.
\<close>

theorem saveChild_repeated_draw_counterexample:
  "trim (form_firstName exampleForm) \<noteq> [] \<and> trim (form_lastName exampleForm) \<noteq> [] \<and>
   trim (form_guardian exampleForm) \<noteq> [] \<and>
   map id' (kids (saveChild (js ''8'') ADD None exampleForm exampleSnapshot)) =
     [js ''k1'', js ''k2'', js ''k3'', js ''k4'', js ''k_8''] \<and>
   map id' (kids (saveChild (js ''8'') ADD None exampleForm
      (saveChild (js ''8'') ADD None exampleForm exampleSnapshot))) =
     [js ''k1'', js ''k2'', js ''k3'', js ''k4'', js ''k_8'', js ''k_8''] \<and>
   \<not> distinct (map id' (kids (saveChild (js ''8'') ADD None exampleForm
      (saveChild (js ''8'') ADD None exampleForm exampleSnapshot))))"
  by code_simp

lemma at_most_one_of_distinct:
  "distinct (map f xs) \<Longrightarrow> length (filter (\<lambda>y. f y = v) xs) \<le> 1"
proof (induction xs)
  case Nil
  then show ?case by simp
next
  case (Cons y ys)
  show ?case
  proof (cases "f y = v")
    case True
    from Cons.prems have "f y \<notin> f ` set ys" by simp
    with True have "\<forall>z \<in> set ys. f z \<noteq> v" by (metis image_eqI)
    then have "filter (\<lambda>y. f y = v) ys = []" by (simp add: filter_empty_conv)
    with True show ?thesis by simp
  next
    case False
    with Cons show ?thesis by simp
  qed
qed

lemma changed_by_archiveRestore:
  "filter (\<lambda>p. snd p \<noteq> fst p) (zip (kids snap) (kids (archiveRestore kid snap))) =
     map (\<lambda>x. (x, x\<lparr>isActive := \<not> isActive x\<rparr>)) (filter (\<lambda>x. id' x = kid) (kids snap))"
proof -
  have flip: "x\<lparr>isActive := \<not> isActive x\<rparr> \<noteq> x" for x :: Child
  proof
    assume "x\<lparr>isActive := \<not> isActive x\<rparr> = x"
    then have "isActive (x\<lparr>isActive := \<not> isActive x\<rparr>) = isActive x"
      by (rule arg_cong)
    then show False by simp
  qed
  have "filter (\<lambda>p. snd p \<noteq> fst p)
          (map (\<lambda>x. (x, if id' x = kid then x\<lparr>isActive := \<not> isActive x\<rparr> else x)) xs) =
        map (\<lambda>x. (x, x\<lparr>isActive := \<not> isActive x\<rparr>)) (filter (\<lambda>x. id' x = kid) xs)" for xs :: "Child list"
    by (induction xs) (simp_all add: flip)
  moreover have "zip xs (map g xs) = map (\<lambda>x. (x, g x)) xs" for g :: "Child \<Rightarrow> Child" and xs
    by (induction xs) simp_all
  ultimately show ?thesis
    by (simp add: archiveRestore_def Let_def)
qed

text \<open>
  Claim C10. The Archive/Restore button keeps the length and the order of the roster and
  the whole history. Every child keeps its id, names, guardian and allergies; a child
  with the id of the button's row has its active flag negated, and every other child is
  unchanged. When the ids of the roster are pairwise different, at most one child differs
  from what it was.
\<close>

theorem archiveRestore_frame:
  "length (kids (archiveRestore kid snap)) = length (kids snap) \<and>
   attendance (archiveRestore kid snap) = attendance snap \<and>
   (\<forall>i < length (kids snap).
      let x = kids snap ! i; x' = kids (archiveRestore kid snap) ! i
      in id' x' = id' x \<and> firstName x' = firstName x \<and> lastName x' = lastName x \<and>
         guardian x' = guardian x \<and> allergies x' = allergies x \<and>
         (if id' x = kid then isActive x' = (\<not> isActive x) else x' = x)) \<and>
   (distinct (map id' (kids snap)) \<longrightarrow>
      length (filter (\<lambda>p. snd p \<noteq> fst p)
        (zip (kids snap) (kids (archiveRestore kid snap)))) \<le> 1)"
proof -
  have "length (filter (\<lambda>p. snd p \<noteq> fst p)
        (zip (kids snap) (kids (archiveRestore kid snap)))) \<le> 1"
    if "distinct (map id' (kids snap))"
    using at_most_one_of_distinct [OF that, of kid]
    by (simp add: changed_by_archiveRestore)
  then show ?thesis
    by (simp add: archiveRestore_def Let_def)
qed

text \<open>Archiving \<open>k2\<close> in the sample state changes the active flag of the second child only.\<close>

theorem archiveRestore_frame_witness:
  "kids (archiveRestore (js ''k2'') exampleSnapshot) =
     [\<lparr>id' = js ''k1'', firstName = js ''Hannah'', lastName = js ''C.'', isActive = True,
       guardian = js ''Andrea'', allergies = Some []\<rparr>,
      \<lparr>id' = js ''k2'', firstName = js ''Morgan'', lastName = js ''C.'', isActive = False,
       guardian = js ''Andrea'', allergies = Some (js ''Peanuts'')\<rparr>,
      \<lparr>id' = js ''k3'', firstName = js ''Riley'', lastName = js ''D.'', isActive = False,
       guardian = js ''Sam'', allergies = None\<rparr>,
      \<lparr>id' = js ''k4'', firstName = js ''Jo'', lastName = js ''E.'', isActive = True,
       guardian = js ''Pat'', allergies = None\<rparr>] \<and>
   (1::nat) < length (kids exampleSnapshot) \<and>
   isActive (kids (archiveRestore (js ''k2'') exampleSnapshot) ! 1) =
     (\<not> isActive (kids exampleSnapshot ! 1)) \<and>
   distinct (map id' (kids exampleSnapshot)) \<and>
   length (filter (\<lambda>p. snd p \<noteq> fst p)
     (zip (kids exampleSnapshot) (kids (archiveRestore (js ''k2'') exampleSnapshot)))) \<le> 1 \<and>
   attendance (archiveRestore (js ''k2'') exampleSnapshot) = attendance exampleSnapshot"
  using archiveRestore_frame [of "js ''k2''" exampleSnapshot]
  by (simp add: js_def exampleSnapshot_def archiveRestore_def)

section \<open>The report\<close>

subsection \<open>The inner loop\<close>

lemma tally_same:
  "tally totals c a c =
     Some \<lparr>days = days (getOrZero totals c) + (if present a then 1 else 0),
           minutes = minutes (getOrZero totals c) + mins a\<rparr>"
  by (simp add: tally_def Let_def)

lemma tally_other: "k \<noteq> c \<Longrightarrow> tally totals k a c = totals c"
  by (simp add: tally_def Let_def)

lemma fold_tally_untouched:
  "c \<notin> set ks \<Longrightarrow>
   fold (\<lambda>childId totals.
           case map_of dm childId of None \<Rightarrow> totals | Some a \<Rightarrow> tally totals childId a)
        ks totals c = totals c"
  by (induction ks arbitrary: totals) (auto simp add: tally_other split: option.splits)

lemma fold_tally_once:
  "distinct ks \<Longrightarrow> c \<in> set ks \<Longrightarrow>
   fold (\<lambda>childId totals.
           case map_of dm childId of None \<Rightarrow> totals | Some a \<Rightarrow> tally totals childId a)
        ks totals c =
     (case map_of dm c of None \<Rightarrow> totals c | Some a \<Rightarrow> tally totals c a c)"
proof (induction ks arbitrary: totals)
  case Nil
  then show ?case by simp
next
  case (Cons k ks)
  let ?step = "\<lambda>childId totals.
     case map_of dm childId of None \<Rightarrow> totals | Some a \<Rightarrow> tally totals childId a"
  show ?case
  proof (cases "c = k")
    case True
    with Cons.prems have "c \<notin> set ks" by simp
    then have "fold ?step ks (?step k totals) c = ?step k totals c"
      by (rule fold_tally_untouched)
    with True show ?thesis by (simp split: option.splits)
  next
    case False
    then have same: "?step k totals c = totals c"
      by (simp add: tally_other split: option.splits)
    from False Cons.prems have "distinct ks" "c \<in> set ks" by simp_all
    then have "fold ?step ks (?step k totals) c =
      (case map_of dm c of None \<Rightarrow> ?step k totals c | Some a \<Rightarrow> tally (?step k totals) c a c)"
      by (rule Cons.IH)
    also have "\<dots> = (case map_of dm c of None \<Rightarrow> totals c | Some a \<Rightarrow> tally totals c a c)"
      using same by (simp add: tally_same getOrZero_def split: option.splits)
    finally show ?thesis by simp
  qed
qed

lemma tallyDay_absent: "map_of dm c = None \<Longrightarrow> tallyDay dm totals c = totals c"
  unfolding tallyDay_def
  by (rule fold_tally_untouched) (simp add: map_of_eq_None_iff)

lemma tallyDay_present:
  assumes "distinct (map fst dm)" and "map_of dm c = Some a"
  shows "tallyDay dm totals c = tally totals c a c"
proof -
  from assms(2) have "c \<in> set (map fst dm)"
    by (auto dest: map_of_SomeD intro: rev_image_eqI)
  with assms show ?thesis
    unfolding tallyDay_def by (simp add: fold_tally_once)
qed

lemma getOrZero_tallyDay:
  assumes "distinct (map fst dm)"
  shows "getOrZero (tallyDay dm totals) c =
     \<lparr>days = days (getOrZero totals c) + length (filter present (recordsOf [(d, dm)] c)),
      minutes = minutes (getOrZero totals c) + sum_list (map mins (recordsOf [(d, dm)] c))\<rparr>"
proof (cases "map_of dm c")
  case None
  then have "getOrZero (tallyDay dm totals) c = getOrZero totals c"
    by (simp add: getOrZero_def tallyDay_absent)
  with None show ?thesis
    by (simp add: recordsOf_def)
next
  case (Some a)
  with assms have "tallyDay dm totals c = tally totals c a c"
    by (rule tallyDay_present)
  with Some show ?thesis
    by (simp add: getOrZero_def [of "tallyDay dm totals"] tally_same recordsOf_def)
qed


subsection \<open>The outer loop\<close>

lemma fold_tallyDay_untouched:
  "\<forall>d \<in> set ds. entry att d c = None \<Longrightarrow>
   fold (\<lambda>dKey totals. tallyDay (dayMapOf att dKey) totals) ds totals c = totals c"
  by (induction ds arbitrary: totals) (simp_all add: entry_def tallyDay_absent)

lemma getOrZero_fold_tallyDay:
  assumes "\<forall>d \<in> set ds. distinct (map fst (dayMapOf att d))"
  shows "getOrZero (fold (\<lambda>dKey totals. tallyDay (dayMapOf att dKey) totals) ds totals) c =
     \<lparr>days = days (getOrZero totals c) +
              length (filter present (List.map_filter (\<lambda>d. entry att d c) ds)),
      minutes = minutes (getOrZero totals c) +
              sum_list (map mins (List.map_filter (\<lambda>d. entry att d c) ds))\<rparr>"
  using assms
proof (induction ds arbitrary: totals)
  case Nil
  then show ?case by simp
next
  case (Cons d ds)
  from Cons.prems have d: "distinct (map fst (dayMapOf att d))"
    and ds: "\<forall>d \<in> set ds. distinct (map fst (dayMapOf att d))"
    by simp_all
  show ?case
    by (simp add: Cons.IH [OF ds] getOrZero_tallyDay [OF d, of _ _ d] recordsOf_def entry_def
        split: option.splits)
qed

subsection \<open>The totals of a child\<close>

lemma map_filter_cong:
  "(\<And>x. x \<in> set xs \<Longrightarrow> f x = g x) \<Longrightarrow> List.map_filter f xs = List.map_filter g xs"
  by (induction xs) (simp_all split: option.splits)

lemma map_filter_map: "List.map_filter f (map g xs) = List.map_filter (\<lambda>x. f (g x)) xs"
  by (induction xs) (simp_all split: option.splits)

lemma map_filter_empty_iff: "List.map_filter f xs = [] \<longleftrightarrow> (\<forall>x \<in> set xs. f x = None)"
  by (induction xs) (auto split: option.splits)

lemma mset_map_filter_sort:
  "mset (List.map_filter f (sort xs)) = mset (List.map_filter f xs)"
  by (simp add: List.map_filter_def)

lemma mset_eq_count_and_sum:
  assumes "mset xs = mset ys"
  shows "length (filter P xs) = length (filter P ys)"
    and "sum_list (map g xs) = (sum_list (map g ys) :: int)"
proof -
  from assms have "mset (filter P xs) = mset (filter P ys)" by simp
  then show "length (filter P xs) = length (filter P ys)" by (rule mset_eq_length)
  from assms have "mset (map g xs) = mset (map g ys)" by simp
  then show "sum_list (map g xs) = (sum_list (map g ys) :: int)" by (metis sum_mset_sum_list)
qed

lemma dayMapOf_distinct:
  "wf_attendance att \<Longrightarrow> distinct (map fst (dayMapOf att d))"
  by (auto simp add: wf_attendance_def dayMapOf_def list_all_iff split: option.splits
      dest!: map_of_SomeD)

lemma entry_of_member:
  "wf_attendance att \<Longrightarrow> p \<in> set att \<Longrightarrow> entry att (fst p) c = map_of (snd p) c"
  by (cases p) (simp add: wf_attendance_def entry_def dayMapOf_def)

lemma entries_by_key:
  assumes "wf_attendance att"
  shows "List.map_filter (\<lambda>d. entry att d c) (map fst att) = recordsOf att c"
  unfolding recordsOf_def map_filter_map
  by (rule map_filter_cong) (rule entry_of_member [OF assms])

lemma getOrZero_reportTotals:
  assumes "wf_attendance att"
  shows "getOrZero (reportTotals att) c =
     \<lparr>days = length (filter present (recordsOf att c)),
      minutes = sum_list (map mins (recordsOf att c))\<rparr>"
proof -
  let ?recs = "List.map_filter (\<lambda>d. entry att d c) (sort (map fst att))"
  have "mset ?recs = mset (recordsOf att c)"
    by (simp only: mset_map_filter_sort entries_by_key [OF assms])
  then have "length (filter present ?recs) = length (filter present (recordsOf att c))"
    and "sum_list (map mins ?recs) = sum_list (map mins (recordsOf att c))"
    by (rule mset_eq_count_and_sum)+
  moreover have "getOrZero (reportTotals att) c =
     \<lparr>days = days (getOrZero Map.empty c) + length (filter present ?recs),
      minutes = minutes (getOrZero Map.empty c) + sum_list (map mins ?recs)\<rparr>"
    unfolding reportTotals_def Let_def
    by (rule getOrZero_fold_tallyDay) (simp add: dayMapOf_distinct [OF assms])
  ultimately show ?thesis by (simp add: getOrZero_def)
qed

lemma reportTotals_no_records:
  assumes "recordsOf att c = []"
  shows "reportTotals att c = None"
proof -
  have "entry att d c = None" for d
  proof (cases "map_of att d")
    case None
    then show ?thesis by (simp add: entry_def dayMapOf_def)
  next
    case (Some dm)
    then have "(d, dm) \<in> set att" by (rule map_of_SomeD)
    with assms have "map_of dm c = None"
      by (auto simp add: recordsOf_def map_filter_empty_iff)
    with Some show ?thesis by (simp add: entry_def dayMapOf_def)
  qed
  then show ?thesis
    by (simp add: reportTotals_def fold_tallyDay_untouched)
qed

text \<open>The transitions keep the keys of the history pairwise different.\<close>

lemma list_all_update:
  "list_all P al \<Longrightarrow> P (k, v) \<Longrightarrow> list_all P (AList.update k v al)"
  by (induction al) auto

lemma wf_attendance_update:
  "wf_attendance att \<Longrightarrow> distinct (map fst dm) \<Longrightarrow> wf_attendance (AList.update d dm att)"
  by (simp add: wf_attendance_def distinct_update list_all_update)

lemma transitions_wf:
  assumes "wf_attendance (attendance snap)"
  shows "wf_attendance (attendance (doCheckIn dateKey now snap childId note))"
    and "wf_attendance (attendance (doCheckOut dateKey now snap childId note))"
  using assms
  by (simp_all add: attendance_doCheckIn attendance_doCheckOut wf_attendance_update
      distinct_update dayMapOf_distinct)

subsection \<open>The rows\<close>

lemma present_iff:
  "present a \<longleftrightarrow>
     status a = PRESENT \<or> (checkInMs a \<noteq> None \<and> checkInMs a \<noteq> Some 0) \<or>
     (case totalMinutes a of None \<Rightarrow> False | Some m \<Rightarrow> 0 < m)"
  by (auto simp add: present_def truthy_def mins_def split: option.splits)

lemma mins_eq: "mins = (\<lambda>a. case totalMinutes a of None \<Rightarrow> 0 | Some m \<Rightarrow> m)"
  by (auto simp add: mins_def fun_eq_iff split: option.splits)

lemma rowOf_reportTotals:
  assumes "wf_attendance att"
  shows "rowOf (reportTotals att) k =
     \<lparr>row_id = id' k, row_name = firstName k @ (js '' '') @ lastName k,
      row_days = length (filter present (recordsOf att (id' k))),
      row_minutes = spec_minutes att (id' k), row_active = isActive k\<rparr>"
  by (simp add: rowOf_def Let_def getOrZero_reportTotals [OF assms] spec_minutes_def mins_eq)

lemma set_reportRows:
  "set (reportRows snap) = rowOf (reportTotals (attendance snap)) ` set (kids snap)"
  by (simp add: reportRows_def Let_def)

lemma mset_reportRows:
  "mset (reportRows snap) = mset (map (rowOf (reportTotals (attendance snap))) (kids snap))"
  by (simp add: reportRows_def Let_def)

text \<open>
  Claim C4, as the code has it. When the keys of the history are pairwise different, as
  they are in every JavaScript object, each row carries the sum of \<open>totalMinutes\<close> (0 when
  absent) over the day records of its child, and the number of those records whose status
  is \<open>PRESENT\<close>, or whose \<open>checkInMs\<close> is set and not 0, or whose \<open>totalMinutes\<close> is
  positive. Every child of the roster has a row.
\<close>

theorem reportRows_totals:
  assumes "wf_attendance (attendance snap)"
  shows "(\<forall>r \<in> set (reportRows snap).
            row_minutes r = spec_minutes (attendance snap) (row_id r) \<and>
            row_days r =
              length (filter
                (\<lambda>a. status a = PRESENT \<or> (checkInMs a \<noteq> None \<and> checkInMs a \<noteq> Some 0) \<or>
                     (case totalMinutes a of None \<Rightarrow> False | Some m \<Rightarrow> 0 < m))
                (recordsOf (attendance snap) (row_id r)))) \<and>
         (\<forall>k \<in> set (kids snap). \<exists>r \<in> set (reportRows snap). row_id r = id' k)"
proof -
  have "present = (\<lambda>a. status a = PRESENT \<or> (checkInMs a \<noteq> None \<and> checkInMs a \<noteq> Some 0) \<or>
                     (case totalMinutes a of None \<Rightarrow> False | Some m \<Rightarrow> 0 < m))"
    by (simp add: fun_eq_iff present_iff)
  then show ?thesis
    by (auto simp add: set_reportRows rowOf_reportTotals [OF assms])
qed

text \<open>
  In the sample state \<open>k2\<close> has two records, one of 60 minutes and one still open: 60
  minutes over 2 days.
\<close>

theorem reportRows_totals_witness:
  "wf_attendance (attendance exampleSnapshot) \<and>
   \<lparr>row_id = js ''k2'', row_name = js ''Morgan C.'', row_days = 2, row_minutes = 60,
    row_active = True\<rparr> \<in> set (reportRows exampleSnapshot) \<and>
   spec_minutes (attendance exampleSnapshot) (js ''k2'') = 60 \<and>
   length (filter
      (\<lambda>a. status a = PRESENT \<or> (checkInMs a \<noteq> None \<and> checkInMs a \<noteq> Some 0) \<or>
           (case totalMinutes a of None \<Rightarrow> False | Some m \<Rightarrow> 0 < m))
      (recordsOf (attendance exampleSnapshot) (js ''k2''))) = 2"
proof -
  let ?r = "\<lparr>row_id = js ''k2'', row_name = js ''Morgan C.'', row_days = 2, row_minutes = 60,
    row_active = True\<rparr>"
  have wf: "wf_attendance (attendance exampleSnapshot)"
    by code_simp
  have mem: "?r \<in> set (reportRows exampleSnapshot)"
    by code_simp
  from reportRows_totals [OF wf] mem
  have "row_minutes ?r = spec_minutes (attendance exampleSnapshot) (row_id ?r) \<and>
        row_days ?r = length (filter
          (\<lambda>a. status a = PRESENT \<or> (checkInMs a \<noteq> None \<and> checkInMs a \<noteq> Some 0) \<or>
               (case totalMinutes a of None \<Rightarrow> False | Some m \<Rightarrow> 0 < m))
          (recordsOf (attendance exampleSnapshot) (row_id ?r)))"
    by blast
  with wf mem show ?thesis by simp
qed

text \<open>
  Claim C4 as it is stated counts a record whose \<open>checkInMs\<close> is set. The report tests
  \<^verbatim>\<open>!!a.checkInMs\<close>, so a record that is \<open>ABSENT\<close>, with 0 minutes and with the
  timestamp 0 is a present day for the specification and not for the report. The state is
  the one that a check-in at the timestamp 0 and a check-out at 60000 produce.
\<close>

theorem reportRows_zero_stamp_counterexample:
  "doCheckOut (js ''1970-01-01'') 60000
     (doCheckIn (js ''1970-01-01'') 0 \<lparr>kids = kids zeroStampSnapshot, attendance = []\<rparr> (js ''k1'') [])
     (js ''k1'') [] = zeroStampSnapshot \<and>
   wf_attendance (attendance zeroStampSnapshot) \<and>
   recordsOf (attendance zeroStampSnapshot) (js ''k1'') =
     [\<lparr>status = ABSENT, checkInMs = Some 0, checkOutMs = Some 60000, totalMinutes = Some 0,
       checkInNote = Some [], checkOutNote = Some []\<rparr>] \<and>
   spec_days (attendance zeroStampSnapshot) (js ''k1'') = 1 \<and>
   map row_id (reportRows zeroStampSnapshot) = [js ''k1''] \<and>
   map row_days (reportRows zeroStampSnapshot) = [0]"
proof -
  have "doCheckOut (js ''1970-01-01'') 60000
     (doCheckIn (js ''1970-01-01'') 0 \<lparr>kids = kids zeroStampSnapshot, attendance = []\<rparr> (js ''k1'') [])
     (js ''k1'') [] = zeroStampSnapshot"
    by (simp add: doCheckOut_def doCheckIn_def zeroStampSnapshot_def Let_def entry_def
        dayMapOf_def orEmpty_def minutesBetween_def truthy_def)
  moreover have "wf_attendance (attendance zeroStampSnapshot) \<and>
   recordsOf (attendance zeroStampSnapshot) (js ''k1'') =
     [\<lparr>status = ABSENT, checkInMs = Some 0, checkOutMs = Some 60000, totalMinutes = Some 0,
       checkInNote = Some [], checkOutNote = Some []\<rparr>] \<and>
   spec_days (attendance zeroStampSnapshot) (js ''k1'') = 1 \<and>
   map row_id (reportRows zeroStampSnapshot) = [js ''k1''] \<and>
   map row_days (reportRows zeroStampSnapshot) = [0]"
    by code_simp
  ultimately show ?thesis by simp
qed

lemma count_one_of_distinct:
  "distinct (map f xs) \<Longrightarrow> x \<in> set xs \<Longrightarrow> length (filter (\<lambda>y. f y = f x) xs) = 1"
proof (induction xs)
  case Nil
  then show ?case by simp
next
  case (Cons y ys)
  show ?case
  proof (cases "f y = f x")
    case True
    from Cons.prems(1) have "f y \<notin> f ` set ys" by simp
    with True have "\<forall>z \<in> set ys. f z \<noteq> f x" by (metis image_eqI)
    then have "filter (\<lambda>y. f y = f x) ys = []" by (simp add: filter_empty_conv)
    with True show ?thesis by simp
  next
    case False
    with Cons show ?thesis by auto
  qed
qed

text \<open>
  Claim C5. The rows are the children of the roster, one row for each: the ids of the
  rows, each with the active flag of its child, are those of the roster as a multiset, so
  with pairwise different ids every child has exactly one row, whatever its active flag.
  A row whose child has no day record has 0 days and 0 minutes.
\<close>

theorem reportRows_complete:
  "mset (map (\<lambda>r. (row_id r, row_active r)) (reportRows snap)) =
     mset (map (\<lambda>k. (id' k, isActive k)) (kids snap)) \<and>
   length (reportRows snap) = length (kids snap) \<and>
   (distinct (map id' (kids snap)) \<longrightarrow>
      (\<forall>k \<in> set (kids snap).
         length (filter (\<lambda>r. row_id r = id' k) (reportRows snap)) = 1)) \<and>
   (\<forall>r \<in> set (reportRows snap).
      recordsOf (attendance snap) (row_id r) = [] \<longrightarrow> row_days r = 0 \<and> row_minutes r = 0)"
proof -
  let ?totals = "reportTotals (attendance snap)"
  have ids: "map row_id (map (rowOf ?totals) (kids snap)) = map id' (kids snap)"
    by (simp add: rowOf_def Let_def)
  have pairs: "map (\<lambda>r. (row_id r, row_active r)) (map (rowOf ?totals) (kids snap)) =
      map (\<lambda>k. (id' k, isActive k)) (kids snap)"
    by (simp add: rowOf_def Let_def)
  have "mset (map (\<lambda>r. (row_id r, row_active r)) (reportRows snap)) =
      mset (map (\<lambda>r. (row_id r, row_active r)) (map (rowOf ?totals) (kids snap)))"
    by (simp only: mset_map mset_reportRows)
  also have "\<dots> = mset (map (\<lambda>k. (id' k, isActive k)) (kids snap))"
    by (simp only: pairs)
  finally have one: "mset (map (\<lambda>r. (row_id r, row_active r)) (reportRows snap)) =
     mset (map (\<lambda>k. (id' k, isActive k)) (kids snap))" .
  have two: "length (reportRows snap) = length (kids snap)"
    by (simp add: reportRows_def Let_def)
  have three: "length (filter (\<lambda>r. row_id r = id' k) (reportRows snap)) = 1"
    if "distinct (map id' (kids snap))" and "k \<in> set (kids snap)" for k
  proof -
    have "length (filter (\<lambda>r. row_id r = id' k) (reportRows snap)) =
        length (filter (\<lambda>r. row_id r = id' k) (map (rowOf ?totals) (kids snap)))"
      using mset_reportRows [of snap] by (metis mset_filter size_mset)
    also have "\<dots> = length (filter (\<lambda>x. id' x = id' k) (kids snap))"
      by (simp add: filter_map o_def rowOf_def Let_def)
    also have "\<dots> = 1"
      using that by (rule count_one_of_distinct)
    finally show ?thesis .
  qed
  have four: "row_days r = 0 \<and> row_minutes r = 0"
    if "r \<in> set (reportRows snap)" and "recordsOf (attendance snap) (row_id r) = []" for r
  proof -
    from that(1) obtain k where r: "r = rowOf ?totals k"
      by (auto simp add: set_reportRows)
    then have "row_id r = id' k" by (simp add: rowOf_def Let_def)
    with that(2) have "?totals (id' k) = None"
      by (simp add: reportTotals_no_records)
    with r show ?thesis by (simp add: rowOf_def Let_def getOrZero_def)
  qed
  from one two three four show ?thesis by blast
qed

text \<open>
  In the sample state the archived child \<open>k3\<close> has no record and appears once, with
  0 days and 0 minutes.
\<close>

theorem reportRows_complete_witness:
  "distinct (map id' (kids exampleSnapshot)) \<and>
   length (filter (\<lambda>r. row_id r = js ''k3'') (reportRows exampleSnapshot)) = 1 \<and>
   recordsOf (attendance exampleSnapshot) (js ''k3'') = [] \<and>
   \<lparr>row_id = js ''k3'', row_name = js ''Riley D.'', row_days = 0, row_minutes = 0,
    row_active = False\<rparr> \<in> set (reportRows exampleSnapshot) \<and>
   length (reportRows exampleSnapshot) = 4"
proof -
  let ?k = "\<lparr>id' = js ''k3'', firstName = js ''Riley'', lastName = js ''D.'', isActive = False,
          guardian = js ''Sam'', allergies = None\<rparr>"
  let ?r = "\<lparr>row_id = js ''k3'', row_name = js ''Riley D.'', row_days = 0, row_minutes = 0,
    row_active = False\<rparr>"
  have d: "distinct (map id' (kids exampleSnapshot))"
    by code_simp
  have k: "?k \<in> set (kids exampleSnapshot)"
    by code_simp
  have r: "?r \<in> set (reportRows exampleSnapshot)"
    by code_simp
  have e: "recordsOf (attendance exampleSnapshot) (row_id ?r) = []"
    by code_simp
  have n: "length (kids exampleSnapshot) = 4"
    by code_simp
  from reportRows_complete [of exampleSnapshot] d k
  have "length (filter (\<lambda>r. row_id r = id' ?k) (reportRows exampleSnapshot)) = 1"
    by blast
  moreover from reportRows_complete [of exampleSnapshot] n
  have "length (reportRows exampleSnapshot) = 4"
    by simp
  moreover from reportRows_complete [of exampleSnapshot] r e
  have "row_days ?r = 0 \<and> row_minutes ?r = 0"
    by blast
  ultimately show ?thesis using d r e by simp
qed

text \<open>
  Claim C8. The rows are in descending order of minutes, and for every number of minutes
  the rows with that number are in the order of the roster.
\<close>

theorem reportRows_sorted_stable:
  "sorted_wrt (\<lambda>a b. row_minutes b \<le> row_minutes a) (reportRows snap) \<and>
   filter (\<lambda>r. row_minutes r = m) (reportRows snap) =
     filter (\<lambda>r. row_minutes r = m) (map (rowOf (reportTotals (attendance snap))) (kids snap))"
proof -
  let ?rows = "map (rowOf (reportTotals (attendance snap))) (kids snap)"
  have "sorted (map (\<lambda>r. - row_minutes r) (sort_key (\<lambda>r. - row_minutes r) ?rows))"
    by (rule sorted_sort_key)
  then have "sorted_wrt (\<lambda>a b. row_minutes b \<le> row_minutes a) (reportRows snap)"
    by (simp add: reportRows_def Let_def sorted_map)
  moreover have "filter (\<lambda>r. - row_minutes r = - m) (sort_key (\<lambda>r. - row_minutes r) ?rows) =
      filter (\<lambda>r. - row_minutes r = - m) ?rows"
    by (rule sort_key_stable)
  then have "filter (\<lambda>r. row_minutes r = m) (reportRows snap) = filter (\<lambda>r. row_minutes r = m) ?rows"
    by (simp add: reportRows_def Let_def)
  ultimately show ?thesis by simp
qed

text \<open>
  In the sample state the rows are \<open>k2\<close> (60), \<open>k1\<close> (45), then \<open>k3\<close> and \<open>k4\<close> (0
  each) in the order of the roster.
\<close>

theorem reportRows_sorted_stable_witness:
  "map (\<lambda>r. (row_id r, row_minutes r)) (reportRows exampleSnapshot) =
     [(js ''k2'', 60), (js ''k1'', 45), (js ''k3'', 0), (js ''k4'', 0)] \<and>
   map row_id (map (rowOf (reportTotals (attendance exampleSnapshot))) (kids exampleSnapshot)) =
     [(js ''k1''), (js ''k2''), (js ''k3''), (js ''k4'')] \<and>
   map row_id (filter (\<lambda>r. row_minutes r = 0) (reportRows exampleSnapshot)) = [(js ''k3''), (js ''k4'')]"
proof -
  have rows: "map (\<lambda>r. (row_id r, row_minutes r)) (reportRows exampleSnapshot) =
     [(js ''k2'', 60), (js ''k1'', 45), (js ''k3'', 0), (js ''k4'', 0)]"
    by code_simp
  have roster: "map (\<lambda>r. (row_id r, row_minutes r))
      (map (rowOf (reportTotals (attendance exampleSnapshot))) (kids exampleSnapshot)) =
     [(js ''k1'', 45), (js ''k2'', 60), (js ''k3'', 0), (js ''k4'', 0)]"
    by code_simp
  have "map row_id (filter (\<lambda>r. row_minutes r = 0)
      (map (rowOf (reportTotals (attendance exampleSnapshot))) (kids exampleSnapshot))) =
     [(js ''k3''), (js ''k4'')]"
    by code_simp
  with reportRows_sorted_stable [of exampleSnapshot 0]
  have "map row_id (filter (\<lambda>r. row_minutes r = 0) (reportRows exampleSnapshot)) =
     [(js ''k3''), (js ''k4'')]"
    by simp
  moreover have "map row_id
      (map (rowOf (reportTotals (attendance exampleSnapshot))) (kids exampleSnapshot)) =
     [(js ''k1''), (js ''k2''), (js ''k3''), (js ''k4'')]"
    by code_simp
  ultimately show ?thesis using rows by simp
qed

end
